theory Spec2Isabelle
  imports Complex_Main "HOL-Library.Word"
begin

section \<open>Output timing, wall-clock detection and checkpoint policy of \<open>core.hpp\<close>\<close>

text \<open>
  The three nested classes of \<open>class core\<close> that decide \<^emph>\<open>when\<close> something happens:
  \<open>output_info\<close> (should an output be written this timestep), \<open>hpc_scheduler_info\<close>
  (is there a wall-clock limit) and \<open>chkptOp\<close> (should a checkpoint be written this
  timestep). Each C++ class is a record, each member function a HOL function that takes
  the object and returns it, and every way of not returning normally is a value.
\<close>

subsection \<open>Machine integers and time values\<close>

text \<open>
  \<open>size_t\<close> is a 64-bit unsigned integer: subtraction wraps, and \<open>%\<close> by zero is
  undefined behaviour, which the model reports as the fault \<open>division_by_zero\<close>.
\<close>

type_synonym size_t = "64 word"

definition SIZE_MAX :: size_t where
  "SIZE_MAX = - 1"

datatype fault = division_by_zero

text \<open>
  The Boost date-time values, by their tick counts at microsecond resolution: a
  \<open>time_duration\<close> is a signed count of ticks, a \<open>ptime\<close> the count of ticks
  since the calendar's day zero (never negative for a date the library accepts). The
  special values (not-a-date-time, the infinities) are left out: the clock and the
  parser of durations do not produce them.
\<close>

type_synonym time_duration = int
type_synonym ptime = nat

definition ticks_per_second :: int where
  "ticks_per_second = 1000000"

text \<open>C++ integer division, which truncates towards zero; used with a positive divisor.\<close>

definition tdiv :: "int \<Rightarrow> int \<Rightarrow> int" where
  "tdiv a b = (if 0 \<le> a then a div b else - ((- a) div b))"

definition tmod :: "int \<Rightarrow> int \<Rightarrow> int" where
  "tmod a b = a - b * tdiv a b"

definition hours :: "time_duration \<Rightarrow> int" where
  "hours d = tdiv d (3600 * ticks_per_second)"

definition minutes :: "time_duration \<Rightarrow> int" where
  "minutes d = tmod (tdiv d (60 * ticks_per_second)) 60"

definition time_of_day :: "ptime \<Rightarrow> time_duration" where
  "time_of_day t = int (t mod (86400 * 1000000))"

text \<open>The constructors \<open>boost::posix_time::seconds(n)\<close> and \<open>minutes(n)\<close>.\<close>

definition posix_seconds :: "int \<Rightarrow> time_duration" where
  "posix_seconds n = n * ticks_per_second"

definition posix_minutes :: "int \<Rightarrow> time_duration" where
  "posix_minutes n = n * 60 * ticks_per_second"

subsection \<open>\<open>core::output_info\<close>\<close>

datatype output_type = time_series | mesh

datatype mesh_outputs = vtp | vtu | ascii

text \<open>
  The fields in their order of declaration. \<open>face\<close> is a handle to a mesh element,
  \<open>None\<close> for the null pointer. The doubles are only carried along, never computed
  with. The time-series buffer \<open>ts\<close> is not touched by anything below and lives in the
  record's extension slot. A \<open>boost::optional\<close> is an \<open>option\<close>.
\<close>

record output_info =
  type :: output_type
  name :: string
  mesh_output_formats :: "mesh_outputs list"
  fname :: string
  latitude :: real
  longitude :: real
  x :: real
  y :: real
  variables :: "string set"
  face :: "nat option"
  frequency :: "size_t option"
  specific_datetime :: "ptime option"
  specific_time :: "ptime option"
  only_last_n :: "size_t option"

text \<open>
  The constructor. It leaves \<open>type\<close> uninitialised, so the value found there is an
  argument. The optionals not named in the initialiser list start disengaged;
  \<open>only_last_n\<close> starts engaged, holding \<open>SIZE_MAX\<close>.
\<close>

definition output_info_init :: "output_type \<Rightarrow> output_info" where
  "output_info_init ty =
     \<lparr> type = ty, name = '''', mesh_output_formats = [], fname = '''',
       latitude = 0, longitude = 0, x = 0, y = 0, variables = {}, face = None,
       frequency = None, specific_datetime = None, specific_time = None,
       only_last_n = Some SIZE_MAX \<rparr>"

text \<open>
  \<open>should_output\<close> is a non-const member function: the model returns the object next
  to the answer. The four blocks run in the source's order on the local flag; the
  second one divides, and faults on a zero frequency before the last two are reached.
\<close>

definition should_output ::
  "'a output_info_scheme \<Rightarrow> size_t \<Rightarrow> size_t \<Rightarrow> ptime \<Rightarrow> fault + (bool \<times> 'a output_info_scheme)"
where
  "should_output d max_ts current_ts current_date =
     (let flag0 = False;
          flag1 = (case only_last_n d of
                     None \<Rightarrow> flag0
                   | Some n \<Rightarrow>
                       (let ts_left = max_ts - current_ts
                        in if ts_left \<le> n then True else flag0))
      in case (case output_info.frequency d of
                 None \<Rightarrow> Inr flag1
               | Some f \<Rightarrow>
                   if f = 0 then Inl division_by_zero
                   else Inr (if current_ts mod f = 0 then True else flag1)) of
           Inl e \<Rightarrow> Inl e
         | Inr flag2 \<Rightarrow>
             (let flag3 = (case specific_time d of
                             None \<Rightarrow> flag2
                           | Some st \<Rightarrow>
                               if hours (time_of_day current_date) = hours (time_of_day st)
                                  \<and> minutes (time_of_day current_date) = minutes (time_of_day st)
                               then True else flag2);
                  flag4 = (case specific_datetime d of
                             None \<Rightarrow> flag3
                           | Some dt \<Rightarrow> if current_date = dt then True else flag3)
              in Inr (flag4, d)))"

text \<open>
  The four triggers in the words of the specification: a trigger that is not configured
  does not match; "within the last \<open>n\<close> timesteps" is \<open>max_ts - current_ts \<le> n\<close> in
  \<open>size_t\<close>; "every \<open>n\<close> timesteps" is that \<open>current_ts\<close> is a multiple of \<open>n\<close>.
\<close>

definition only_last_n_matches :: "'a output_info_scheme \<Rightarrow> size_t \<Rightarrow> size_t \<Rightarrow> bool" where
  "only_last_n_matches d max_ts current_ts =
     (case only_last_n d of None \<Rightarrow> False | Some n \<Rightarrow> max_ts - current_ts \<le> n)"

definition frequency_matches :: "'a output_info_scheme \<Rightarrow> size_t \<Rightarrow> bool" where
  "frequency_matches d current_ts =
     (case output_info.frequency d of None \<Rightarrow> False | Some f \<Rightarrow> unat f dvd unat current_ts)"

definition specific_time_matches :: "'a output_info_scheme \<Rightarrow> ptime \<Rightarrow> bool" where
  "specific_time_matches d current_date =
     (case specific_time d of
        None \<Rightarrow> False
      | Some st \<Rightarrow> hours (time_of_day current_date) = hours (time_of_day st)
                 \<and> minutes (time_of_day current_date) = minutes (time_of_day st))"

definition specific_datetime_matches :: "'a output_info_scheme \<Rightarrow> ptime \<Rightarrow> bool" where
  "specific_datetime_matches d current_date =
     (case specific_datetime d of None \<Rightarrow> False | Some dt \<Rightarrow> current_date = dt)"

definition some_trigger_matches ::
  "'a output_info_scheme \<Rightarrow> size_t \<Rightarrow> size_t \<Rightarrow> ptime \<Rightarrow> bool"
where
  "some_trigger_matches d max_ts current_ts current_date =
     (only_last_n_matches d max_ts current_ts \<or> frequency_matches d current_ts
      \<or> specific_time_matches d current_date \<or> specific_datetime_matches d current_date)"

text \<open>What a caller sees of a call: the answer or the fault, without the object.\<close>

definition answer :: "fault + (bool \<times> 's) \<Rightarrow> fault + bool" where
  "answer r = (case r of Inl e \<Rightarrow> Inl e | Inr p \<Rightarrow> Inr (fst p))"

subsection \<open>\<open>core::hpc_scheduler_info\<close>\<close>

record hpc_scheduler_info =
  max_wallclock :: time_duration
  wallclock_start :: ptime
  has_wallclock_limit :: bool

text \<open>
  \<open>wallclock_remaining\<close> reads the clock (\<open>second_clock::local_time()\<close>); the reading
  is an argument.
\<close>

definition wallclock_remaining :: "'a hpc_scheduler_info_scheme \<Rightarrow> ptime \<Rightarrow> time_duration" where
  "wallclock_remaining si local_time =
     max_wallclock si - (int local_time - int (wallclock_start si))"

text \<open>
  The process environment is a list of name/value pairs and \<open>std::getenv\<close> a lookup:
  \<open>None\<close> is the null pointer.
\<close>

type_synonym environment = "(string \<times> string) list"

definition getenv :: "environment \<Rightarrow> string \<Rightarrow> string option" where
  "getenv env var = map_of env var"

datatype exn = chm_error string

text \<open>
  \<open>detect\<close>. The parser \<open>boost::posix_time::duration_from_string\<close> is the library's
  and is an argument: \<open>None\<close> when it throws. The clock reading is an argument too. The
  scheduler's variables are read and only logged, and logging is left out. An
  exception leaves the function with the object as the statements before it made it,
  so the raised value is paired with that object: the parser throws before
  \<open>max_wallclock\<close> is assigned.
\<close>

definition detect ::
  "environment \<Rightarrow> (string \<Rightarrow> time_duration option) \<Rightarrow> ptime \<Rightarrow>
   'a hpc_scheduler_info_scheme \<Rightarrow> (exn \<times> 'a hpc_scheduler_info_scheme) + 'a hpc_scheduler_info_scheme"
where
  "detect env duration_from_string local_time s =
     (let SLURM_JOB_ID = getenv env ''SLURM_JOB_ID'';
          s1 = (case SLURM_JOB_ID of
                  None \<Rightarrow> s
                | Some job \<Rightarrow>
                    (let SLURM_TASK_PID = getenv env ''SLURM_TASK_PID'';
                         SLURM_PROCID = getenv env ''SLURM_PROCID''
                     in s));
          PBS_JOB_ID = getenv env ''PBS_JOBID'';
          s2 = (case PBS_JOB_ID of None \<Rightarrow> s1 | Some job \<Rightarrow> s1);
          CHM_WALLCLOCK = getenv env ''CHM_WALLCLOCK_LIMIT''
      in case CHM_WALLCLOCK of
           None \<Rightarrow> Inr s2
         | Some v \<Rightarrow>
             (case duration_from_string v of
                None \<Rightarrow>
                  Inl (chm_error ''The value given for environment variable CHM_WALLCLOCK is invalid'', s2)
              | Some d \<Rightarrow>
                  Inr (s2\<lparr> max_wallclock := d, has_wallclock_limit := True,
                           wallclock_start := local_time \<rparr>)))"

subsection \<open>\<open>core::chkptOp\<close>\<close>

text \<open>
  The fields in their order of declaration, without the open NetCDF handle
  \<open>in_savestate\<close>, which the decision does not read.
\<close>

record chkptOp =
  ckpt_path :: string
  do_checkpoint :: bool
  load_from_checkpoint :: bool
  abort_when_wallclock_left :: time_duration
  on_outta_time :: "bool option"
  on_last :: "bool option"
  frequency :: "size_t option"
  checkpoint_request_terminate :: bool

text \<open>The constructor: \<open>on_last\<close> starts engaged and false, the margin is two minutes.\<close>

definition chkptOp_init :: chkptOp where
  "chkptOp_init =
     \<lparr> ckpt_path = '''', do_checkpoint = False, load_from_checkpoint = False,
       abort_when_wallclock_left = posix_minutes 2, on_outta_time = None,
       on_last = Some False, frequency = None, checkpoint_request_terminate = False \<rparr>"

text \<open>
  \<open>boost::mpi::all_reduce\<close> with \<open>maximum<int>\<close>: this rank's value and the values
  the other ranks of the communicator contribute, folded with \<open>max\<close>.
\<close>

definition all_reduce_maximum :: "int \<Rightarrow> int list \<Rightarrow> int" where
  "all_reduce_maximum v others = fold max others v"

text \<open>The conversion of \<open>bool\<close> to \<open>int\<close> in \<open>int outoftime = ... <= ...\<close>.\<close>

definition bool_to_int :: "bool \<Rightarrow> int" where
  "bool_to_int b = (if b then 1 else 0)"

text \<open>
  The condition \<open>frequency && current_ts != 0 && (current_ts % *frequency == 0)\<close>.
  \<open>&&\<close> short-circuits, so the remainder is only taken when the frequency is set and
  the timestep is not zero; it faults when the frequency is zero.
\<close>

definition frequency_due :: "size_t option \<Rightarrow> size_t \<Rightarrow> fault + bool" where
  "frequency_due freq current_ts =
     (case freq of
        None \<Rightarrow> Inr False
      | Some f \<Rightarrow>
          if current_ts = 0 then Inr False
          else if f = 0 then Inl division_by_zero
          else Inr (current_ts mod f = 0))"

text \<open>The local check \<open>scheduler_info.wallclock_remaining() <= abort_when_wallclock_left\<close>.\<close>

definition about_to_run_out ::
  "'a chkptOp_scheme \<Rightarrow> 'b hpc_scheduler_info_scheme \<Rightarrow> ptime \<Rightarrow> bool"
where
  "about_to_run_out s scheduler_info local_time =
     (wallclock_remaining scheduler_info local_time \<le> abort_when_wallclock_left s)"

text \<open>
  \<open>should_checkpoint\<close>. The communicator is the list of the values the other ranks
  hand to the reduction, the clock reading is an argument. The result carries the
  answer, the object, and the trace of this rank's collective calls: the value handed to
  each \<open>all_reduce\<close>, in order. The reduction is taken to return: the other ranks
  reach it too. Logging is left out.
\<close>

definition should_checkpoint ::
  "'a chkptOp_scheme \<Rightarrow> size_t \<Rightarrow> bool \<Rightarrow> 'b hpc_scheduler_info_scheme \<Rightarrow> ptime \<Rightarrow> int list \<Rightarrow>
   fault + (bool \<times> 'a chkptOp_scheme \<times> int list)"
where
  "should_checkpoint s current_ts is_last_ts scheduler_info local_time comm_world =
     (if \<not> do_checkpoint s then Inr (False, s, [])
      else if on_last s = Some True \<and> is_last_ts then Inr (True, s, [])
      else
        case frequency_due (frequency s) current_ts of
          Inl e \<Rightarrow> Inl e
        | Inr True \<Rightarrow> Inr (True, s, [])
        | Inr False \<Rightarrow>
            if on_outta_time s = Some True \<and> has_wallclock_limit scheduler_info then
              (let outoftime = bool_to_int (about_to_run_out s scheduler_info local_time);
                   global_outoftime = all_reduce_maximum outoftime comm_world
               in if global_outoftime \<noteq> 0
                  then Inr (True, s\<lparr> checkpoint_request_terminate := True \<rparr>, [outoftime])
                  else Inr (False, s, [outoftime]))
            else Inr (False, s, []))"

text \<open>
  A run of evaluations, one per timestep, each on the object the one before left: the
  objects after each evaluation, up to the first fault.
\<close>

type_synonym timestep_input = "size_t \<times> bool \<times> hpc_scheduler_info \<times> ptime \<times> int list"

fun checkpoint_states :: "'a chkptOp_scheme \<Rightarrow> timestep_input list \<Rightarrow> 'a chkptOp_scheme list" where
  "checkpoint_states s [] = []"
| "checkpoint_states s ((current_ts, is_last_ts, scheduler_info, local_time, comm_world) # rest) =
     (case should_checkpoint s current_ts is_last_ts scheduler_info local_time comm_world of
        Inl e \<Rightarrow> []
      | Inr (b, s', tr) \<Rightarrow> s' # checkpoint_states s' rest)"

text \<open>The number of collective calls a call of \<open>should_checkpoint\<close> made.\<close>

definition collective_calls :: "fault + (bool \<times> 's \<times> int list) \<Rightarrow> nat" where
  "collective_calls r = (case r of Inl e \<Rightarrow> 0 | Inr (b, s, tr) \<Rightarrow> length tr)"

subsection \<open>The design's words\<close>

text \<open>
  The consensus the design asks for: the logical OR of the ranks' local checks.
\<close>

definition logical_or_consensus :: "bool list \<Rightarrow> bool" where
  "logical_or_consensus votes = (True \<in> set votes)"

text \<open>
  The decision rule of the checkpoint manager, in its priority order, on the combined
  out-of-time decision.
\<close>

definition decision_rule ::
  "'a chkptOp_scheme \<Rightarrow> size_t \<Rightarrow> bool \<Rightarrow> 'b hpc_scheduler_info_scheme \<Rightarrow> bool \<Rightarrow> bool"
where
  "decision_rule s current_ts is_last_ts scheduler_info combined =
     (if \<not> do_checkpoint s then False
      else if on_last s = Some True \<and> is_last_ts then True
      else if (case frequency s of
                 None \<Rightarrow> False
               | Some f \<Rightarrow> current_ts \<noteq> 0 \<and> unat f dvd unat current_ts) then True
      else if on_outta_time s = Some True \<and> has_wallclock_limit scheduler_info then combined
      else False)"

subsection \<open>Concrete inputs\<close>

text \<open>
  An instance of the duration parser: it reads \<open>02:00:00\<close> as two hours and throws on
  anything else it is given here.
\<close>

definition two_hours_parser :: "string \<Rightarrow> time_duration option" where
  "two_hours_parser v = (if v = ''02:00:00'' then Some (posix_seconds 7200) else None)"

text \<open>
  A budget as the constructor leaves it: no limit, a zero duration. The start field
  holds no clock reading yet; \<open>0\<close> stands in for it.
\<close>

definition no_budget :: hpc_scheduler_info where
  "no_budget = \<lparr> max_wallclock = posix_seconds 0, wallclock_start = 0, has_wallclock_limit = False \<rparr>"

text \<open>A two-hour budget that started at tick \<open>0\<close>.\<close>

definition two_hour_budget :: hpc_scheduler_info where
  "two_hour_budget =
     \<lparr> max_wallclock = posix_seconds 7200, wallclock_start = 0, has_wallclock_limit = True \<rparr>"

text \<open>An environment of a batch job with scheduler variables and no override.\<close>

definition batch_job_env :: environment where
  "batch_job_env =
     [(''SLURM_JOB_ID'', ''4242''), (''SLURM_TASK_PID'', ''311''), (''SLURM_PROCID'', ''0''),
      (''SLURM_JOB_END_TIME'', ''1767225600''), (''PBS_JOBID'', ''77.head''),
      (''PBS_WALLTIME'', ''7200'')]"

text \<open>Checkpoint policies: the constructor's object with the configuration applied.\<close>

definition disabled_policy :: chkptOp where
  "disabled_policy = chkptOp_init \<lparr> on_outta_time := Some True, on_last := Some True \<rparr>"

definition out_of_time_policy :: chkptOp where
  "out_of_time_policy = chkptOp_init \<lparr> do_checkpoint := True, on_outta_time := Some True \<rparr>"

definition every_fourth_policy :: chkptOp where
  "every_fourth_policy = chkptOp_init \<lparr> do_checkpoint := True, frequency := Some 4 \<rparr>"

definition zero_frequency_policy :: chkptOp where
  "zero_frequency_policy =
     chkptOp_init \<lparr> do_checkpoint := True, on_outta_time := Some True, frequency := Some 0 \<rparr>"

text \<open>
  Three timesteps under the two-hour budget, each with one other rank that is not out of
  time: one second in, a hundred seconds before the limit, and a reading well inside the
  budget again.
\<close>

definition example_run :: "timestep_input list" where
  "example_run =
     [(1, False, two_hour_budget, 1000000, [0]),
      (2, False, two_hour_budget, 7100000000, [0]),
      (3, False, two_hour_budget, 2000000, [0])]"

text \<open>Output descriptors: the constructor's object with the configuration applied.\<close>

definition zero_frequency_output :: output_info where
  "zero_frequency_output = (output_info_init mesh) \<lparr> output_info.frequency := Some 0 \<rparr>"

definition every_tenth_output :: output_info where
  "every_tenth_output =
     (output_info_init mesh) \<lparr> output_info.frequency := Some 10, only_last_n := None \<rparr>"

definition renamed_output :: output_info where
  "renamed_output = every_tenth_output \<lparr> name := ''swe'', fname := ''swe.vtu'' \<rparr>"

section \<open>Properties\<close>

subsection \<open>The functions as equations\<close>

lemmas concrete_defs = chkptOp_init_def posix_minutes_def posix_seconds_def ticks_per_second_def
  two_hour_budget_def no_budget_def about_to_run_out_def wallclock_remaining_def bool_to_int_def
  all_reduce_maximum_def frequency_due_def

lemma fault_eq: "(e::fault) = division_by_zero"
  by (cases e) simp

text \<open>In \<open>size_t\<close>, a zero remainder is divisibility of the values.\<close>

lemma mod_eq_0_iff_unat_dvd: "(a mod f = 0) = (unat f dvd unat a)" for a f :: size_t
  by (simp add: unat_eq_0 [symmetric] unat_mod mod_eq_0_iff_dvd del: unat_eq_0)

text \<open>
  \<open>should_output\<close> faults exactly on a zero frequency; otherwise it returns the object
  as it was, and answers whether some trigger matches.
\<close>

lemma should_output_eq:
  "should_output d max_ts current_ts current_date =
     (if output_info.frequency d = Some 0 then Inl division_by_zero
      else Inr (some_trigger_matches d max_ts current_ts current_date, d))"
  by (auto simp: should_output_def some_trigger_matches_def only_last_n_matches_def
        frequency_matches_def specific_time_matches_def specific_datetime_matches_def
        mod_eq_0_iff_unat_dvd split: option.splits)

text \<open>With \<open>max_ts = 100\<close> and \<open>only_last_n = 5\<close> the trigger matches on 95 to 100 only.\<close>

lemma only_last_5_of_100:
  "only_last_n d = Some 5 \<Longrightarrow>
   only_last_n_matches d 100 current_ts = (95 \<le> current_ts \<and> current_ts \<le> 100)"
  unfolding only_last_n_matches_def by simp unat_arith

text \<open>With \<open>frequency = 10\<close> the trigger matches on the multiples of ten, zero included.\<close>

lemma every_tenth:
  "output_info.frequency d = Some 10 \<Longrightarrow> frequency_matches d current_ts = (10 dvd unat current_ts)"
  by (simp add: frequency_matches_def)

lemma detect_eq:
  "detect env duration_from_string local_time s =
     (case getenv env ''CHM_WALLCLOCK_LIMIT'' of
        None \<Rightarrow> Inr s
      | Some v \<Rightarrow>
          (case duration_from_string v of
             None \<Rightarrow>
               Inl (chm_error ''The value given for environment variable CHM_WALLCLOCK is invalid'', s)
           | Some d \<Rightarrow> Inr (s\<lparr> max_wallclock := d, has_wallclock_limit := True,
                               wallclock_start := local_time \<rparr>)))"
  by (simp add: detect_def Let_def split: option.splits)

lemma frequency_due_eq:
  "frequency_due freq current_ts =
     (if freq = Some 0 \<and> current_ts \<noteq> 0 then Inl division_by_zero
      else Inr (case freq of
                  None \<Rightarrow> False
                | Some f \<Rightarrow> current_ts \<noteq> 0 \<and> unat f dvd unat current_ts))"
  by (auto simp: frequency_due_def mod_eq_0_iff_unat_dvd split: option.splits)

lemma should_checkpoint_eq:
  "should_checkpoint s current_ts is_last_ts si local_time comm_world =
     (if \<not> do_checkpoint s then Inr (False, s, [])
      else if on_last s = Some True \<and> is_last_ts then Inr (True, s, [])
      else if frequency_due (frequency s) current_ts = Inl division_by_zero then Inl division_by_zero
      else if frequency_due (frequency s) current_ts = Inr True then Inr (True, s, [])
      else if on_outta_time s = Some True \<and> has_wallclock_limit si then
        (if all_reduce_maximum (bool_to_int (about_to_run_out s si local_time)) comm_world \<noteq> 0
         then Inr (True, s\<lparr> checkpoint_request_terminate := True \<rparr>,
                   [bool_to_int (about_to_run_out s si local_time)])
         else Inr (False, s, [bool_to_int (about_to_run_out s si local_time)]))
      else Inr (False, s, []))"
  by (cases "frequency_due (frequency s) current_ts")
     (auto simp: should_checkpoint_def Let_def fault_eq split: bool.splits)

subsection \<open>The maximum of zeros and ones\<close>

lemma fold_max_nonzero:
  "set vs \<subseteq> {0, 1} \<Longrightarrow> v \<in> {0, 1} \<Longrightarrow>
   fold max vs (v::int) = (if v = 1 \<or> 1 \<in> set vs then 1 else 0)"
  by (induction vs arbitrary: v) auto

lemma all_reduce_maximum_votes:
  "all_reduce_maximum (bool_to_int b) (map bool_to_int bs) = bool_to_int (b \<or> True \<in> set bs)"
proof -
  have "set (map bool_to_int bs) \<subseteq> {0, 1}" "bool_to_int b \<in> {0, 1}"
    by (auto simp: bool_to_int_def)
  then have "fold max (map bool_to_int bs) (bool_to_int b)
      = (if bool_to_int b = 1 \<or> 1 \<in> set (map bool_to_int bs) then 1 else 0)"
    by (rule fold_max_nonzero)
  moreover have "(1 \<in> set (map bool_to_int bs)) = (True \<in> set bs)"
    by (auto simp: bool_to_int_def split: if_splits)
  ultimately show ?thesis
    by (simp add: all_reduce_maximum_def bool_to_int_def)
qed

lemma all_reduce_maximum_nonzero:
  "(all_reduce_maximum (bool_to_int b) (map bool_to_int bs) = 0) = (\<not> (b \<or> True \<in> set bs))"
proof -
  have "bool_to_int c = 0 \<longleftrightarrow> \<not> c" for c
    by (simp add: bool_to_int_def)
  then show ?thesis
    by (simp only: all_reduce_maximum_votes)
qed

subsection \<open>The decision rule away from a zero frequency\<close>

text \<open>
  When the frequency is not zero, \<open>should_checkpoint\<close> returns, and its answer is the
  one of the decision rule on the logical OR of the ranks' local checks.
\<close>

lemma should_checkpoint_follows_rule:
  assumes "frequency s \<noteq> Some 0"
  shows "answer (should_checkpoint s current_ts is_last_ts si local_time (map bool_to_int others))
           = Inr (decision_rule s current_ts is_last_ts si
                    (logical_or_consensus (about_to_run_out s si local_time # others)))"
  using assms
  by (auto simp: should_checkpoint_eq frequency_due_eq answer_def decision_rule_def
        all_reduce_maximum_nonzero logical_or_consensus_def split: option.splits)

text \<open>The frequency trigger is never due at timestep 0, whatever the frequency.\<close>

lemma frequency_never_due_at_zero: "frequency_due freq 0 = Inr False"
  by (simp add: frequency_due_def split: option.splits)

text \<open>Frequency 4 over the timesteps 0 to 9, nothing else configured: 4 and 8.\<close>

lemma every_fourth_of_ten:
  "filter (\<lambda>ts. answer (should_checkpoint every_fourth_policy ts False no_budget 0 []) = Inr True)
     [0, 1, 2, 3, 4, 5, 6, 7, 8, 9] = [4, 8]"
  by (simp add: should_checkpoint_def answer_def every_fourth_policy_def concrete_defs)

subsection \<open>The termination flag along a run\<close>

lemma should_checkpoint_sticky:
  "should_checkpoint s current_ts is_last_ts si local_time comm_world = Inr (b, s', tr) \<Longrightarrow>
   checkpoint_request_terminate s \<Longrightarrow> checkpoint_request_terminate s'"
  by (auto simp: should_checkpoint_eq split: if_splits)

lemma checkpoint_states_sticky:
  "checkpoint_request_terminate s \<Longrightarrow>
   \<forall>s' \<in> set (checkpoint_states s steps). checkpoint_request_terminate s'"
proof (induction steps arbitrary: s)
  case Nil
  then show ?case by simp
next
  case (Cons step steps)
  obtain current_ts is_last_ts si local_time comm_world
    where step: "step = (current_ts, is_last_ts, si, local_time, comm_world)"
    by (cases step) auto
  show ?case
  proof (cases "should_checkpoint s current_ts is_last_ts si local_time comm_world")
    case (Inl e)
    then show ?thesis by (simp add: step)
  next
    case (Inr r)
    obtain b s' tr where r: "r = (b, s', tr)" by (cases r) auto
    have "checkpoint_request_terminate s'"
      using Inr r Cons.prems by (auto dest: should_checkpoint_sticky)
    then show ?thesis
      using Cons.IH [of s'] Inr r by (simp add: step)
  qed
qed

text \<open>What follows an object in a run is the run from that object.\<close>

lemma checkpoint_states_suffix:
  "checkpoint_states s steps = pre @ s1 # post \<Longrightarrow> \<exists>rest. post = checkpoint_states s1 rest"
proof (induction steps arbitrary: s pre)
  case Nil
  then show ?case by simp
next
  case (Cons step steps)
  obtain current_ts is_last_ts si local_time comm_world
    where step: "step = (current_ts, is_last_ts, si, local_time, comm_world)"
    by (cases step) auto
  show ?case
  proof (cases "should_checkpoint s current_ts is_last_ts si local_time comm_world")
    case (Inl e)
    with Cons.prems show ?thesis by (simp add: step)
  next
    case (Inr r)
    obtain b s' tr where r: "r = (b, s', tr)" by (cases r) auto
    note IH = Cons.IH
    from Cons.prems Inr r have eq: "s' # checkpoint_states s' steps = pre @ s1 # post"
      by (simp add: step)
    show ?thesis
    proof (cases pre)
      case Nil
      with eq show ?thesis by auto
    next
      case (Cons p pre')
      with eq have "checkpoint_states s' steps = pre' @ s1 # post" by auto
      then show ?thesis by (rule IH)
    qed
  qed
qed

section \<open>The claims\<close>

subsection \<open>Checkpoint decision\<close>

text \<open>
  Claim C1. \<open>should_checkpoint\<close> is to return true exactly when the decision rule says
  so, for every policy. The rule holds whenever the frequency is not zero
  (\<open>should_checkpoint_follows_rule\<close>, with \<open>frequency_never_due_at_zero\<close> and
  \<open>every_fourth_of_ten\<close> for the two examples of the claim). With a frequency of zero
  and a timestep that is not zero the function takes the remainder by zero: at timestep
  5, checkpointing and the out-of-time option enabled, a detected limit and a hundred
  seconds left, it faults, where the rule passes over the frequency (5 is no multiple
  of 0) and answers yes from the out-of-time consensus.
\<close>

theorem should_checkpoint_zero_frequency_faults:
  "should_checkpoint zero_frequency_policy 5 False two_hour_budget 7100000000 [0]
     = Inl division_by_zero
   \<and> decision_rule zero_frequency_policy 5 False two_hour_budget
        (logical_or_consensus
           [about_to_run_out zero_frequency_policy two_hour_budget 7100000000, False])
     = True"
  by (simp add: should_checkpoint_def decision_rule_def logical_or_consensus_def
        zero_frequency_policy_def concrete_defs)

subsection \<open>Output triggers\<close>

text \<open>
  Claim C2. \<open>should_output\<close> is to return true exactly when one of the configured
  triggers matches, for every descriptor. It does whenever the frequency is not zero
  (\<open>should_output_eq\<close>, with \<open>only_last_5_of_100\<close> and \<open>every_tenth\<close> for the two
  examples of the claim). With a frequency of zero it takes the remainder by zero: the
  constructor's descriptor with frequency 0 faults at timestep 7 of 100, where its
  last-\<open>n\<close> trigger matches.
\<close>

theorem should_output_zero_frequency_faults:
  "should_output zero_frequency_output 100 7 0 = Inl division_by_zero
   \<and> some_trigger_matches zero_frequency_output 100 7 0 = True"
  by (simp add: should_output_def some_trigger_matches_def only_last_n_matches_def
        zero_frequency_output_def output_info_init_def SIZE_MAX_def)

subsection \<open>The sticky termination flag\<close>

text \<open>
  Claim C3. The termination flag is sticky. Along every run of \<open>should_checkpoint\<close>
  evaluations: if the flag is set in the object the run starts from, it is set in every
  object of the run; and once an evaluation has left it set, it is set after every
  later evaluation.
\<close>

theorem terminate_flag_sticky:
  "(checkpoint_request_terminate s \<longrightarrow>
      (\<forall>s' \<in> set (checkpoint_states s steps). checkpoint_request_terminate s')) \<and>
   (checkpoint_states s steps = pre @ s1 # post \<and> checkpoint_request_terminate s1 \<longrightarrow>
      (\<forall>s2 \<in> set post. checkpoint_request_terminate s2))"
proof (intro conjI impI)
  assume "checkpoint_request_terminate s"
  then show "\<forall>s' \<in> set (checkpoint_states s steps). checkpoint_request_terminate s'"
    by (rule checkpoint_states_sticky)
next
  assume a: "checkpoint_states s steps = pre @ s1 # post \<and> checkpoint_request_terminate s1"
  then obtain rest where "post = checkpoint_states s1 rest"
    using checkpoint_states_suffix by blast
  then show "\<forall>s2 \<in> set post. checkpoint_request_terminate s2"
    using a checkpoint_states_sticky [of s1 rest] by simp
qed

text \<open>
  The example run: the flag is clear after the first timestep, the second sets it, and
  it is still set after the third, whose clock reading is inside the budget.
\<close>

theorem terminate_flag_sticky_witness:
  "map checkpoint_request_terminate (checkpoint_states out_of_time_policy example_run)
     = [False, True, True]"
proof -
  have run: "checkpoint_states out_of_time_policy example_run =
      [out_of_time_policy] @ out_of_time_policy \<lparr> checkpoint_request_terminate := True \<rparr>
        # [out_of_time_policy \<lparr> checkpoint_request_terminate := True \<rparr>]"
    by (simp add: example_run_def out_of_time_policy_def should_checkpoint_def concrete_defs)
  have flag: "checkpoint_request_terminate
                (out_of_time_policy \<lparr> checkpoint_request_terminate := True \<rparr>)"
    by simp
  have "\<forall>s2 \<in> set [out_of_time_policy \<lparr> checkpoint_request_terminate := True \<rparr>].
          checkpoint_request_terminate s2"
    using terminate_flag_sticky
      [where s = out_of_time_policy and steps = example_run and pre = "[out_of_time_policy]"
         and ?s1.0 = "out_of_time_policy \<lparr> checkpoint_request_terminate := True \<rparr>"
         and post = "[out_of_time_policy \<lparr> checkpoint_request_terminate := True \<rparr>]"]
      run flag
    by blast
  then show ?thesis
    by (simp add: run) (simp add: out_of_time_policy_def chkptOp_init_def)
qed

subsection \<open>The consensus\<close>

text \<open>
  Claim C4. The maximum all-reduce of the ranks' 0/1 values is the logical OR of their
  local checks: at every rank (every position of the list of ranks) the reduction of
  its own value with the others' is 1 if some rank's check was true and 0 otherwise.
  And when the out-of-time block is reached and the combined decision is true,
  \<open>should_checkpoint\<close> sets the termination flag and returns true.
\<close>

theorem maximum_all_reduce_is_logical_or:
  "all_reduce_maximum (bool_to_int v) (map bool_to_int (before @ after))
     = bool_to_int (logical_or_consensus (before @ v # after)) \<and>
   (do_checkpoint s \<and> \<not> (on_last s = Some True \<and> is_last_ts) \<and>
    frequency_due (frequency s) current_ts = Inr False \<and>
    on_outta_time s = Some True \<and> has_wallclock_limit si \<and>
    logical_or_consensus (about_to_run_out s si local_time # others) \<longrightarrow>
      should_checkpoint s current_ts is_last_ts si local_time (map bool_to_int others)
        = Inr (True, s\<lparr> checkpoint_request_terminate := True \<rparr>,
               [bool_to_int (about_to_run_out s si local_time)]))"
proof -
  have "all_reduce_maximum (bool_to_int v) (map bool_to_int (before @ after))
          = bool_to_int (logical_or_consensus (before @ v # after))"
    using all_reduce_maximum_votes [of v "before @ after"]
    by (auto simp: logical_or_consensus_def)
  moreover have "should_checkpoint s current_ts is_last_ts si local_time (map bool_to_int others)
        = Inr (True, s\<lparr> checkpoint_request_terminate := True \<rparr>,
               [bool_to_int (about_to_run_out s si local_time)])"
    if "do_checkpoint s" "\<not> (on_last s = Some True \<and> is_last_ts)"
      "frequency_due (frequency s) current_ts = Inr False"
      "on_outta_time s = Some True" "has_wallclock_limit si"
      "logical_or_consensus (about_to_run_out s si local_time # others)"
    using that
    by (auto simp: should_checkpoint_eq all_reduce_maximum_nonzero logical_or_consensus_def)
  ultimately show ?thesis by blast
qed

text \<open>
  Three ranks, the last one out of time: the middle rank's reduction is 1; and a rank
  that is itself inside the budget checkpoints and sets the flag.
\<close>

theorem maximum_all_reduce_is_logical_or_witness:
  "all_reduce_maximum (bool_to_int False) (map bool_to_int ([False] @ [True])) = 1 \<and>
   should_checkpoint out_of_time_policy 3 False two_hour_budget 1000000
       (map bool_to_int [False, True])
     = Inr (True, out_of_time_policy \<lparr> checkpoint_request_terminate := True \<rparr>, [0])"
  using maximum_all_reduce_is_logical_or
    [where v = False and before = "[False]" and after = "[True]"
       and s = out_of_time_policy and is_last_ts = False and current_ts = 3
       and si = two_hour_budget and local_time = 1000000 and others = "[False, True]"]
  by (simp add: logical_or_consensus_def out_of_time_policy_def concrete_defs)

subsection \<open>When the collective is called\<close>

text \<open>
  Claim C5, as amended. \<open>should_checkpoint\<close> calls the collective once when
  checkpointing is enabled, the on-last trigger did not fire, the frequency check ran
  and did not fire, the out-of-time option is enabled and a wall-clock limit was
  detected; in every other case it calls no collective. Whether it is called depends
  on neither the clock reading nor the values of the other ranks.
\<close>

theorem collective_only_on_out_of_time_path:
  "collective_calls (should_checkpoint s current_ts is_last_ts si local_time comm_world) =
     (if do_checkpoint s \<and> \<not> (on_last s = Some True \<and> is_last_ts) \<and>
         frequency_due (frequency s) current_ts = Inr False \<and>
         on_outta_time s = Some True \<and> has_wallclock_limit si
      then 1 else 0)"
  by (cases "frequency_due (frequency s) current_ts")
     (auto simp: should_checkpoint_eq collective_calls_def fault_eq)

text \<open>
  Claim C5 as stated fails: with checkpointing disabled no collective is called, and
  none is called either on a timestep where the frequency trigger fires, though the
  out-of-time option is enabled, a limit was detected and the rank is out of time.
\<close>

theorem no_collective_when_disabled_or_triggered:
  "collective_calls (should_checkpoint disabled_policy 9 True two_hour_budget 7100000000 [0]) = 0
   \<and> collective_calls
        (should_checkpoint (every_fourth_policy \<lparr> on_outta_time := Some True \<rparr>) 4 False
           two_hour_budget 7100000000 [0]) = 0"
  by (simp add: should_checkpoint_def collective_calls_def disabled_policy_def
        every_fourth_policy_def concrete_defs)

subsection \<open>The last timestep\<close>

text \<open>
  Claim C6, as amended. When checkpointing is enabled and the on-last option is
  enabled, \<open>should_checkpoint\<close> returns true on a timestep flagged as the last,
  whatever the frequency (zero included) and the out-of-time settings, and leaves the
  object as it was, without a collective call.
\<close>

theorem on_last_checkpoint_when_enabled:
  assumes "do_checkpoint s" and "on_last s = Some True"
  shows "should_checkpoint s current_ts True si local_time comm_world = Inr (True, s, [])"
  using assms by (simp add: should_checkpoint_def)

theorem on_last_checkpoint_when_enabled_witness:
  "should_checkpoint (zero_frequency_policy \<lparr> on_last := Some True \<rparr>) 9 True
       two_hour_budget 7100000000 [0]
     = Inr (True, zero_frequency_policy \<lparr> on_last := Some True \<rparr>, [])"
  using on_last_checkpoint_when_enabled
    [where s = "zero_frequency_policy \<lparr> on_last := Some True \<rparr>" and current_ts = 9
       and si = two_hour_budget and local_time = 7100000000 and comm_world = "[0]"]
  by (simp add: zero_frequency_policy_def chkptOp_init_def)

text \<open>
  Claim C6 as stated fails: with the on-last option enabled and checkpointing disabled,
  the call on the last timestep returns false.
\<close>

theorem on_last_needs_checkpointing_enabled:
  "should_checkpoint disabled_policy 9 True two_hour_budget 7100000000 [0]
     = Inr (False, disabled_policy, [])
   \<and> on_last disabled_policy = Some True"
  by (simp add: should_checkpoint_def disabled_policy_def chkptOp_init_def)

subsection \<open>Wall-clock detection\<close>

text \<open>
  Claim C7, as amended. Detection records a limit (the flag set, the parsed duration
  and the clock reading stored) when the environment holds the override
  \<open>CHM_WALLCLOCK_LIMIT\<close> and it parses as a duration; when the override is absent it
  leaves the budget as it was, whatever else the environment holds.
\<close>

theorem detect_records_limit_from_override_only:
  "(getenv env ''CHM_WALLCLOCK_LIMIT'' = None \<longrightarrow>
      detect env duration_from_string local_time s = Inr s) \<and>
   (getenv env ''CHM_WALLCLOCK_LIMIT'' = Some v \<and> duration_from_string v = Some d \<longrightarrow>
      detect env duration_from_string local_time s =
        Inr (s\<lparr> max_wallclock := d, has_wallclock_limit := True, wallclock_start := local_time \<rparr>))"
  by (simp add: detect_eq)

theorem detect_records_limit_from_override_only_witness:
  "detect batch_job_env two_hours_parser 1000 no_budget = Inr no_budget \<and>
   detect ((''CHM_WALLCLOCK_LIMIT'', ''02:00:00'') # batch_job_env) two_hours_parser 1000 no_budget =
     Inr \<lparr> max_wallclock = 7200000000, wallclock_start = 1000, has_wallclock_limit = True \<rparr>"
proof -
  have a: "getenv batch_job_env ''CHM_WALLCLOCK_LIMIT'' = None"
    by (simp add: getenv_def batch_job_env_def)
  have b: "getenv ((''CHM_WALLCLOCK_LIMIT'', ''02:00:00'') # batch_job_env) ''CHM_WALLCLOCK_LIMIT''
             = Some ''02:00:00''
           \<and> two_hours_parser ''02:00:00'' = Some 7200000000"
    by (simp add: getenv_def two_hours_parser_def posix_seconds_def ticks_per_second_def)
  from a b show ?thesis
    using detect_records_limit_from_override_only
      [where env = batch_job_env and duration_from_string = two_hours_parser
         and local_time = 1000 and s = no_budget and v = "''02:00:00''" and d = 7200000000]
      detect_records_limit_from_override_only
      [where env = "(''CHM_WALLCLOCK_LIMIT'', ''02:00:00'') # batch_job_env"
         and duration_from_string = two_hours_parser
         and local_time = 1000 and s = no_budget and v = "''02:00:00''" and d = 7200000000]
    by (simp add: no_budget_def posix_seconds_def ticks_per_second_def)
qed

text \<open>
  Claim C7 as stated fails: an environment that holds the scheduler's job variables,
  its end time and its wall time among them, and no override, records no limit.
\<close>

theorem scheduler_variables_record_no_limit:
  "detect batch_job_env two_hours_parser 1000 no_budget = Inr no_budget
   \<and> has_wallclock_limit no_budget = False"
  by (simp add: detect_eq getenv_def batch_job_env_def no_budget_def)

text \<open>
  Claim C8. When the override is present and the parser throws on it, detection raises
  the configuration error, and the budget is as it was before the call: no limit is
  recorded.
\<close>

theorem detect_malformed_override_atomic:
  assumes "getenv env ''CHM_WALLCLOCK_LIMIT'' = Some v"
    and "duration_from_string v = None"
  shows "detect env duration_from_string local_time s =
           Inl (chm_error ''The value given for environment variable CHM_WALLCLOCK is invalid'', s)"
  using assms by (simp add: detect_eq)

theorem detect_malformed_override_atomic_witness:
  "detect [(''SLURM_JOB_ID'', ''4242''), (''CHM_WALLCLOCK_LIMIT'', ''soon'')] two_hours_parser 5 no_budget =
     Inl (chm_error ''The value given for environment variable CHM_WALLCLOCK is invalid'', no_budget)
   \<and> has_wallclock_limit no_budget = False"
proof -
  have e: "getenv [(''SLURM_JOB_ID'', ''4242''), (''CHM_WALLCLOCK_LIMIT'', ''soon'')]
             ''CHM_WALLCLOCK_LIMIT'' = Some ''soon''"
    by (simp add: getenv_def)
  have p: "two_hours_parser ''soon'' = None"
    by (simp add: two_hours_parser_def)
  show ?thesis
    using detect_malformed_override_atomic
      [where env = "[(''SLURM_JOB_ID'', ''4242''), (''CHM_WALLCLOCK_LIMIT'', ''soon'')]"
         and v = "''soon''" and duration_from_string = two_hours_parser
         and local_time = 5 and s = no_budget, OF e p]
    by (simp add: no_budget_def)
qed

subsection \<open>Output evaluation is pure\<close>

text \<open>
  Claim C9. A call of \<open>should_output\<close> that returns leaves the descriptor as it was,
  every field of it; and its outcome is the same for two descriptors that agree on the
  four trigger fields, given the same maximum timestep, timestep and date.
\<close>

theorem should_output_pure:
  "(should_output d max_ts current_ts current_date = Inr (b, d') \<longrightarrow> d' = d) \<and>
   (output_info.frequency d = output_info.frequency e \<and>
    specific_datetime d = specific_datetime e \<and>
    specific_time d = specific_time e \<and>
    only_last_n d = only_last_n e \<longrightarrow>
      answer (should_output d max_ts current_ts current_date)
        = answer (should_output e max_ts current_ts current_date))"
  by (auto simp: should_output_eq answer_def some_trigger_matches_def only_last_n_matches_def
        frequency_matches_def specific_time_matches_def specific_datetime_matches_def)

theorem should_output_pure_witness:
  "should_output every_tenth_output 100 20 0 = Inr (True, every_tenth_output) \<and>
   answer (should_output every_tenth_output 100 20 0)
     = answer (should_output renamed_output 100 20 0) \<and>
   renamed_output \<noteq> every_tenth_output"
  using should_output_pure
    [where d = every_tenth_output and e = renamed_output and max_ts = 100 and current_ts = 20
       and current_date = 0 and b = True and d' = every_tenth_output]
  by (simp add: should_output_def renamed_output_def every_tenth_output_def output_info_init_def)

text \<open>
  Claim C10. The descriptor the constructor builds emits on every timestep: for every
  maximum timestep, timestep and date, \<open>should_output\<close> returns true.
\<close>

theorem default_output_emits_every_timestep:
  "should_output (output_info_init ty) max_ts current_ts current_date
     = Inr (True, output_info_init ty)"
  by (simp add: should_output_def output_info_init_def SIZE_MAX_def)

end
